theory Spec2Isabelle
  imports Complex_Main
begin

section \<open>JavaScript numbers\<close>

text \<open>
  The calculator computes with JavaScript numbers. A number is modelled as a finite real
  or one of the three special values of IEEE 754. Addition, subtraction, multiplication
  and division of finite values are exact (rounding, the sign of zero and overflow of
  these four operations are not modelled). \<open>Math.pow\<close>, whose result leaves the range of
  a binary64 number already at ordinary arguments (a return of 1200 percent over 86 years
  asks for \<open>2\<close> to the power \<open>1032\<close>), does overflow to an infinity. The special
  values follow IEEE 754: a finite non-zero value divided by zero is an infinity, zero
  divided by zero is \<open>NaN\<close>, \<open>NaN\<close> is absorbing, and every comparison with \<open>NaN\<close> is
  false.
\<close>

datatype number = Fin real | PInf | NInf | NaN

fun inf_of_sign :: "real \<Rightarrow> number" where
  "inf_of_sign s = (if 0 < s then PInf else if s < 0 then NInf else NaN)"

fun sign_of :: "number \<Rightarrow> real" where
  "sign_of (Fin a) = sgn a"
| "sign_of PInf = 1"
| "sign_of NInf = - 1"
| "sign_of NaN = 0"

instantiation number :: "{plus, minus, uminus, times, inverse, ord}"
begin

fun plus_number :: "number \<Rightarrow> number \<Rightarrow> number" where
  "Fin a + Fin b = Fin (a + b)"
| "NaN + _ = NaN"
| "_ + NaN = NaN"
| "PInf + NInf = NaN"
| "NInf + PInf = NaN"
| "PInf + _ = PInf"
| "_ + PInf = PInf"
| "NInf + _ = NInf"
| "_ + NInf = NInf"

fun uminus_number :: "number \<Rightarrow> number" where
  "- Fin a = Fin (- a)"
| "- PInf = NInf"
| "- NInf = PInf"
| "- NaN = NaN"

definition minus_number :: "number \<Rightarrow> number \<Rightarrow> number" where
  "a - b = a + (- b)" for a b :: number

fun times_number :: "number \<Rightarrow> number \<Rightarrow> number" where
  "Fin a * Fin b = Fin (a * b)"
| "NaN * _ = NaN"
| "_ * NaN = NaN"
| "x * y = inf_of_sign (sign_of x * sign_of y)"

fun divide_number :: "number \<Rightarrow> number \<Rightarrow> number" where
  "divide (Fin a) (Fin b) = (if b \<noteq> 0 then Fin (a / b) else inf_of_sign (sgn a))"
| "divide NaN _ = NaN"
| "divide _ NaN = NaN"
| "divide (Fin a) _ = Fin 0"
| "divide PInf (Fin b) = (if 0 \<le> b then PInf else NInf)"
| "divide NInf (Fin b) = (if 0 \<le> b then NInf else PInf)"
| "divide _ _ = NaN"

definition inverse_number :: "number \<Rightarrow> number" where
  "inverse a = divide (Fin 1) a" for a :: number

fun less_number :: "number \<Rightarrow> number \<Rightarrow> bool" where
  "Fin a < Fin b \<longleftrightarrow> a < b"
| "NaN < _ \<longleftrightarrow> False"
| "_ < NaN \<longleftrightarrow> False"
| "_ < NInf \<longleftrightarrow> False"
| "PInf < _ \<longleftrightarrow> False"
| "NInf < _ \<longleftrightarrow> True"
| "_ < PInf \<longleftrightarrow> True"

fun less_eq_number :: "number \<Rightarrow> number \<Rightarrow> bool" where
  "Fin a \<le> Fin b \<longleftrightarrow> a \<le> b"
| "NaN \<le> _ \<longleftrightarrow> False"
| "_ \<le> NaN \<longleftrightarrow> False"
| "NInf \<le> _ \<longleftrightarrow> True"
| "_ \<le> PInf \<longleftrightarrow> True"
| "(_::number) \<le> _ \<longleftrightarrow> False"

instance ..

end

text \<open>\<open>Math.min\<close>: \<open>NaN\<close> if either argument is \<open>NaN\<close>, the smaller one otherwise.\<close>

fun Math_min :: "number \<Rightarrow> number \<Rightarrow> number" where
  "Math_min NaN _ = NaN"
| "Math_min _ NaN = NaN"
| "Math_min a b = (if a \<le> b then a else b)"

text \<open>
  A binary64 result overflows when its magnitude reaches \<open>2^1024 - 2^970\<close>, half-way
  between the largest finite number and \<open>2^1024\<close>: from there on rounding to nearest
  gives an infinity.
\<close>

definition overflow_threshold :: real where
  "overflow_threshold = 2 ^ 1024 - 2 ^ 970"

fun overflow :: "real \<Rightarrow> number" where
  "overflow v =
     (if overflow_threshold \<le> v then PInf
      else if v \<le> - overflow_threshold then NInf
      else Fin v)"

text \<open>
  \<open>Math.pow\<close> at a non-negative integer exponent (the only exponents the calculator
  uses: a number of months or of years). \<open>Math.pow(x, 0)\<close> is 1 for every \<open>x\<close>; the power
  of a finite base is the real power, or an infinity when that is out of range; the
  powers of the special values follow from multiplication.
\<close>

fun Math_pow :: "number \<Rightarrow> nat \<Rightarrow> number" where
  "Math_pow x 0 = Fin 1"
| "Math_pow (Fin a) (Suc n) = overflow (a ^ Suc n)"
| "Math_pow x (Suc n) = x * Math_pow x n"

text \<open>\<open>Math.round\<close> rounds to the nearest integer, halves upwards.\<close>

fun Math_round :: "number \<Rightarrow> number" where
  "Math_round (Fin a) = Fin (of_int \<lfloor>a + 1 / 2\<rfloor>)"
| "Math_round x = x"

text \<open>
  An optional argument is \<open>None\<close> for \<open>null\<close>. In a condition, \<open>null\<close>, \<open>0\<close> and \<open>NaN\<close>
  count as false and every other number as true.
\<close>

fun truthy :: "number option \<Rightarrow> bool" where
  "truthy None = False"
| "truthy (Some (Fin a)) = (a \<noteq> 0)"
| "truthy (Some NaN) = False"
| "truthy (Some _) = True"

fun is_finite :: "number \<Rightarrow> bool" where
  "is_finite (Fin a) = True"
| "is_finite _ = False"


section \<open>Tax tables and constants\<close>

record bracket =
  bracket_min :: number
  bracket_max :: number
  bracket_rate :: number

definition TAX_BRACKETS_federal_single :: "bracket list" where
  "TAX_BRACKETS_federal_single =
    [\<lparr>bracket_min = Fin 0, bracket_max = Fin 11000, bracket_rate = Fin 0.10\<rparr>,
     \<lparr>bracket_min = Fin 11000, bracket_max = Fin 44725, bracket_rate = Fin 0.12\<rparr>,
     \<lparr>bracket_min = Fin 44725, bracket_max = Fin 95375, bracket_rate = Fin 0.22\<rparr>,
     \<lparr>bracket_min = Fin 95375, bracket_max = Fin 182050, bracket_rate = Fin 0.24\<rparr>,
     \<lparr>bracket_min = Fin 182050, bracket_max = Fin 231250, bracket_rate = Fin 0.32\<rparr>,
     \<lparr>bracket_min = Fin 231250, bracket_max = Fin 578125, bracket_rate = Fin 0.35\<rparr>,
     \<lparr>bracket_min = Fin 578125, bracket_max = PInf, bracket_rate = Fin 0.37\<rparr>]"

definition TAX_BRACKETS_california_single :: "bracket list" where
  "TAX_BRACKETS_california_single =
    [\<lparr>bracket_min = Fin 0, bracket_max = Fin 10099, bracket_rate = Fin 0.01\<rparr>,
     \<lparr>bracket_min = Fin 10099, bracket_max = Fin 23942, bracket_rate = Fin 0.02\<rparr>,
     \<lparr>bracket_min = Fin 23942, bracket_max = Fin 37788, bracket_rate = Fin 0.04\<rparr>,
     \<lparr>bracket_min = Fin 37788, bracket_max = Fin 52455, bracket_rate = Fin 0.06\<rparr>,
     \<lparr>bracket_min = Fin 52455, bracket_max = Fin 66295, bracket_rate = Fin 0.08\<rparr>,
     \<lparr>bracket_min = Fin 66295, bracket_max = Fin 338639, bracket_rate = Fin 0.093\<rparr>,
     \<lparr>bracket_min = Fin 338639, bracket_max = Fin 406364, bracket_rate = Fin 0.103\<rparr>,
     \<lparr>bracket_min = Fin 406364, bracket_max = Fin 677275, bracket_rate = Fin 0.113\<rparr>,
     \<lparr>bracket_min = Fin 677275, bracket_max = PInf, bracket_rate = Fin 0.123\<rparr>]"

definition SOCIAL_SECURITY_WAGE_BASE :: number where
  "SOCIAL_SECURITY_WAGE_BASE = Fin 160200"

definition EMPLOYEE_401K_LIMIT :: number where
  "EMPLOYEE_401K_LIMIT = Fin 23000"


section \<open>TaxCalculator\<close>

text \<open>
  \<open>calculateTax\<close> iterates over the brackets in order and adds to \<open>tax\<close>; the loop is the
  recursion on the list, \<open>tax\<close> its accumulator.
\<close>

fun calculateTax_loop :: "number \<Rightarrow> bracket list \<Rightarrow> number \<Rightarrow> number" where
  "calculateTax_loop income [] tax = tax"
| "calculateTax_loop income (b # brackets) tax =
     calculateTax_loop income brackets
       (if income > bracket_min b
        then (let taxableInBracket = Math_min income (bracket_max b) - bracket_min b
              in tax + taxableInBracket * bracket_rate b)
        else tax)"

definition calculateTax :: "number \<Rightarrow> bracket list \<Rightarrow> number" where
  "calculateTax income brackets = calculateTax_loop income brackets (Fin 0)"

definition calculateFederalTax :: "number \<Rightarrow> number" where
  "calculateFederalTax income = calculateTax income TAX_BRACKETS_federal_single"

definition calculateStateTax :: "number \<Rightarrow> number" where
  "calculateStateTax income = calculateTax income TAX_BRACKETS_california_single"

definition calculateFICATax :: "number \<Rightarrow> number" where
  "calculateFICATax income =
     (let socialSecurityTax = Math_min income SOCIAL_SECURITY_WAGE_BASE * Fin 0.062;
          medicareTax = income * Fin 0.0145
      in socialSecurityTax + medicareTax)"

record taxes =
  tax_federal :: number
  tax_state :: number
  tax_fica :: number
  tax_total :: number

definition calculateTotalTaxes :: "number \<Rightarrow> taxes" where
  "calculateTotalTaxes income =
     (let federal = calculateFederalTax income;
          state = calculateStateTax income;
          fica = calculateFICATax income
      in \<lparr>tax_federal = federal, tax_state = state, tax_fica = fica,
          tax_total = federal + state + fica\<rparr>)"


section \<open>FinancialCalculator (the Roth-aware snapshot, src/unnamed/part_001)\<close>

text \<open>
  The horizon \<open>years\<close> is a non-negative integer (the form reads it with \<open>parseInt\<close>), so
  the number of months is a natural number and \<open>Math.pow\<close> is used at such exponents only.
\<close>

definition calculateFutureValue :: "number \<Rightarrow> number \<Rightarrow> nat \<Rightarrow> number" where
  "calculateFutureValue annualContribution annualReturn years =
     (let monthlyContribution = annualContribution / Fin 12;
          monthlyReturn = annualReturn / Fin 100 / Fin 12;
          totalMonths = years * 12
      in if monthlyReturn = Fin 0 then monthlyContribution * Fin (real totalMonths)
         else monthlyContribution
              * ((Math_pow (Fin 1 + monthlyReturn) totalMonths - Fin 1) / monthlyReturn))"

record scenario401K =
  k_contribution :: number
  k_employerContribution :: number
  k_total401KContribution :: number
  k_trad401kContribution :: number
  k_roth401kContribution :: number
  k_rothIRAContribution :: number
  k_additionalBrokerage :: number
  k_totalFutureValue :: number
  k_taxableIncome :: number
  k_taxes :: taxes
  k_takeHomePay :: number
  k_futureValueTrad401k :: number
  k_futureValueRoth401k :: number
  k_futureValueEmployerMatch :: number
  k_futureValueRothIRA :: number
  k_futureValueAdditionalBrokerage :: number
  k_grossSalary :: number

text \<open>
  The defaults of the source (\<open>targetTakeHome = null\<close>, \<open>accountType = 'traditional'\<close>,
  \<open>roth401kMax = 0\<close>, \<open>rothIRA = 0\<close>) are passed explicitly: \<open>None\<close>, \<open>''traditional''\<close>,
  \<open>Fin 0\<close>, \<open>Fin 0\<close>. \<open>accountType\<close> is unused, as in the source.
\<close>

definition calculate401KScenario ::
  "number \<Rightarrow> number \<Rightarrow> number \<Rightarrow> number \<Rightarrow> nat \<Rightarrow> number option \<Rightarrow> string \<Rightarrow> number \<Rightarrow> number
   \<Rightarrow> scenario401K" where
  "calculate401KScenario grossSalary contributionPercent employerMatch investmentReturn years
     targetTakeHome accountType roth401kMax rothIRA =
     (let totalContributionAmount =
            Math_min (grossSalary * (contributionPercent / Fin 100)) EMPLOYEE_401K_LIMIT;
          employerContribution =
            Math_min (grossSalary * (employerMatch / Fin 100)) totalContributionAmount;
          roth401kContribution = Math_min totalContributionAmount roth401kMax;
          trad401kContribution = totalContributionAmount - roth401kContribution;
          rothIRAContribution = Math_min rothIRA (Fin 7000);
          taxableIncome = grossSalary - trad401kContribution;
          taxes = calculateTotalTaxes taxableIncome;
          takeHomePay = taxableIncome - tax_total taxes;
          takeHomePay = takeHomePay - roth401kContribution;
          takeHomePay = takeHomePay - rothIRAContribution;
          futureValueTrad401k = calculateFutureValue trad401kContribution investmentReturn years;
          futureValueRoth401k = calculateFutureValue roth401kContribution investmentReturn years;
          futureValueEmployer = calculateFutureValue employerContribution investmentReturn years;
          futureValueRothIRA = calculateFutureValue rothIRAContribution investmentReturn years;
          additionalBrokerage =
            (case targetTakeHome of
               None \<Rightarrow> Fin 0
             | Some target \<Rightarrow>
                 if truthy targetTakeHome \<and> takeHomePay > target then takeHomePay - target
                 else Fin 0);
          futureValueAdditionalBrokerage =
            calculateFutureValue additionalBrokerage investmentReturn years
      in \<lparr>k_contribution = totalContributionAmount,
          k_employerContribution = employerContribution,
          k_total401KContribution = totalContributionAmount + employerContribution,
          k_trad401kContribution = trad401kContribution,
          k_roth401kContribution = roth401kContribution,
          k_rothIRAContribution = rothIRAContribution,
          k_additionalBrokerage = additionalBrokerage,
          k_totalFutureValue =
            futureValueTrad401k + futureValueRoth401k + futureValueEmployer
            + futureValueRothIRA + futureValueAdditionalBrokerage,
          k_taxableIncome = taxableIncome,
          k_taxes = taxes,
          k_takeHomePay = takeHomePay,
          k_futureValueTrad401k = futureValueTrad401k,
          k_futureValueRoth401k = futureValueRoth401k,
          k_futureValueEmployerMatch = futureValueEmployer,
          k_futureValueRothIRA = futureValueRothIRA,
          k_futureValueAdditionalBrokerage = futureValueAdditionalBrokerage,
          k_grossSalary = grossSalary\<rparr>)"

record scenarioNo401K =
  n_taxes :: taxes
  n_takeHomePay :: number
  n_brokerageInvestment :: number
  n_futureValueBrokerage :: number
  n_grossSalary :: number

definition calculateNo401KScenario ::
  "number \<Rightarrow> number \<Rightarrow> number \<Rightarrow> nat \<Rightarrow> number option \<Rightarrow> number \<Rightarrow> scenarioNo401K" where
  "calculateNo401KScenario grossSalary contributionPercent investmentReturn years targetTakeHome
     rothIRA =
     (let taxes = calculateTotalTaxes grossSalary;
          takeHomePay = grossSalary - tax_total taxes;
          rothIRAContribution = Math_min rothIRA (Fin 7000);
          takeHomePay = takeHomePay - rothIRAContribution;
          futureValueRothIRA = calculateFutureValue rothIRAContribution investmentReturn years;
          brokerageInvestment =
            (if truthy targetTakeHome
             then (case targetTakeHome of
                     None \<Rightarrow> Fin 0
                   | Some target \<Rightarrow>
                       if takeHomePay > target then takeHomePay - target else Fin 0)
             else (let potentialContribution =
                         Math_min (grossSalary * (contributionPercent / Fin 100))
                           EMPLOYEE_401K_LIMIT
                   in potentialContribution
                      * (Fin 1 - (tax_federal taxes + tax_state taxes) / grossSalary)));
          futureValueBrokerage = calculateFutureValue brokerageInvestment investmentReturn years
      in \<lparr>n_taxes = taxes,
          n_takeHomePay = takeHomePay,
          n_brokerageInvestment = brokerageInvestment,
          n_futureValueBrokerage = futureValueBrokerage + futureValueRothIRA,
          n_grossSalary = grossSalary\<rparr>)"

definition calculateAnnualWithdrawal :: "number \<Rightarrow> number \<Rightarrow> nat \<Rightarrow> number" where
  "calculateAnnualWithdrawal principal' annualReturn years =
     (if annualReturn = Fin 0 then principal' / Fin (real years)
      else (let numerator = annualReturn * Math_pow (Fin 1 + annualReturn) years;
                denominator = Math_pow (Fin 1 + annualReturn) years - Fin 1
            in principal' * (numerator / denominator)))"

record lumpSum_result =
  ls_total :: number
  ls_taxes :: number
  ls_net :: number
  ls_taxRate :: number

record annual_result =
  an_withdrawal :: number
  an_taxes :: number
  an_net :: number
  an_taxRate :: number

record withdrawal_results =
  lumpSum :: lumpSum_result
  annual :: annual_result

text \<open>
  The defaults \<open>investmentReturn = 7\<close> and \<open>retirementYears = 20\<close> of the two withdrawal
  functions are passed explicitly.
\<close>

definition calculateCombinedWithdrawalTaxes ::
  "number \<Rightarrow> number \<Rightarrow> number \<Rightarrow> number \<Rightarrow> number \<Rightarrow> number \<Rightarrow> number \<Rightarrow> nat
   \<Rightarrow> withdrawal_results" where
  "calculateCombinedWithdrawalTaxes futureValueTrad futureValueRoth futureValueEmployer
     futureValueRothIRA futureValueBrokerage retirementIncome investmentReturn retirementYears =
     (let totalFutureValue =
            futureValueTrad + futureValueRoth + futureValueEmployer + futureValueRothIRA
            + futureValueBrokerage;
          lumpSumIncome = retirementIncome;
          lumpSumIncome = lumpSumIncome + futureValueTrad;
          lumpSumIncome = lumpSumIncome + futureValueEmployer;
          incomeTaxes = calculateTotalTaxes lumpSumIncome;
          capitalGains = futureValueBrokerage;
          longTermCapitalGainsRate = Fin 0.20;
          capitalGainsTaxes = capitalGains * longTermCapitalGainsRate;
          totalLumpSumTaxes = tax_total incomeTaxes + capitalGainsTaxes;
          results_lumpSum =
            \<lparr>ls_total = totalFutureValue,
             ls_taxes = totalLumpSumTaxes,
             ls_net = totalFutureValue - totalLumpSumTaxes,
             ls_taxRate =
               (if totalFutureValue > Fin 0
                then (totalLumpSumTaxes / totalFutureValue) * Fin 100 else Fin 0)\<rparr>;
          annualReturn = investmentReturn / Fin 100;
          totalAnnualWithdrawal =
            calculateAnnualWithdrawal totalFutureValue annualReturn retirementYears;
          proportionTrad =
            (if totalFutureValue > Fin 0 then futureValueTrad / totalFutureValue else Fin 0);
          proportionRoth =
            (if totalFutureValue > Fin 0 then futureValueRoth / totalFutureValue else Fin 0);
          proportionEmployer =
            (if totalFutureValue > Fin 0 then futureValueEmployer / totalFutureValue else Fin 0);
          proportionRothIRA =
            (if totalFutureValue > Fin 0 then futureValueRothIRA / totalFutureValue else Fin 0);
          proportionBrokerage =
            (if totalFutureValue > Fin 0 then futureValueBrokerage / totalFutureValue else Fin 0);
          annualFromTrad = totalAnnualWithdrawal * proportionTrad;
          annualFromRoth = totalAnnualWithdrawal * proportionRoth;
          annualFromEmployer = totalAnnualWithdrawal * proportionEmployer;
          annualFromRothIRA = totalAnnualWithdrawal * proportionRothIRA;
          annualFromBrokerage = totalAnnualWithdrawal * proportionBrokerage;
          annualTaxableIncome = retirementIncome;
          annualTaxableIncome = annualTaxableIncome + annualFromTrad;
          annualTaxableIncome = annualTaxableIncome + annualFromEmployer;
          annualIncomeTaxes = calculateTotalTaxes annualTaxableIncome;
          annualCapitalGains = annualFromBrokerage * Fin 0.7;
          annualCapitalGainsTaxes = annualCapitalGains * longTermCapitalGainsRate;
          totalAnnualTaxes = tax_total annualIncomeTaxes + annualCapitalGainsTaxes;
          results_annual =
            \<lparr>an_withdrawal = totalAnnualWithdrawal,
             an_taxes = totalAnnualTaxes,
             an_net = totalAnnualWithdrawal - totalAnnualTaxes,
             an_taxRate =
               (if totalAnnualWithdrawal > Fin 0
                then (totalAnnualTaxes / totalAnnualWithdrawal) * Fin 100 else Fin 0)\<rparr>
      in \<lparr>lumpSum = results_lumpSum, annual = results_annual\<rparr>)"

definition calculateBrokerageWithdrawalTaxes ::
  "number \<Rightarrow> number \<Rightarrow> number \<Rightarrow> nat \<Rightarrow> withdrawal_results" where
  "calculateBrokerageWithdrawalTaxes futureValueBrokerage retirementIncome investmentReturn
     retirementYears =
     (let capitalGains = futureValueBrokerage;
          longTermCapitalGainsRate = Fin 0.20;
          lumpSumCapitalGainsTax = capitalGains * longTermCapitalGainsRate;
          results_lumpSum =
            \<lparr>ls_total = futureValueBrokerage,
             ls_taxes = lumpSumCapitalGainsTax,
             ls_net = futureValueBrokerage - lumpSumCapitalGainsTax,
             ls_taxRate = (lumpSumCapitalGainsTax / futureValueBrokerage) * Fin 100\<rparr>;
          annualReturn = investmentReturn / Fin 100;
          annualWithdrawal =
            calculateAnnualWithdrawal futureValueBrokerage annualReturn retirementYears;
          annualCapitalGains = annualWithdrawal * Fin 0.7;
          annualCapitalGainsTax = annualCapitalGains * longTermCapitalGainsRate;
          results_annual =
            \<lparr>an_withdrawal = annualWithdrawal,
             an_taxes = annualCapitalGainsTax,
             an_net = annualWithdrawal - annualCapitalGainsTax,
             an_taxRate = (annualCapitalGainsTax / annualWithdrawal) * Fin 100\<rparr>
      in \<lparr>lumpSum = results_lumpSum, annual = results_annual\<rparr>)"

text \<open>
  The solver's loop runs 30 times; the first argument of \<open>findMax_loop\<close> counts the
  iterations left, the last three are \<open>low\<close>, \<open>high\<close> and \<open>bestPercent\<close>.
\<close>

fun findMax_loop ::
  "nat \<Rightarrow> number \<Rightarrow> number \<Rightarrow> number \<Rightarrow> number \<Rightarrow> number \<Rightarrow> number \<Rightarrow> number \<Rightarrow> number" where
  "findMax_loop 0 grossSalary targetAnnualTakeHome employerMatch rothIRA low high bestPercent =
     bestPercent"
| "findMax_loop (Suc n) grossSalary targetAnnualTakeHome employerMatch rothIRA low high
     bestPercent =
     (let mid = (low + high) / Fin 2;
          scenario = calculate401KScenario grossSalary mid employerMatch (Fin 7) 30
                       (Some targetAnnualTakeHome) ''traditional'' (Fin 0) rothIRA
      in if k_takeHomePay scenario \<ge> targetAnnualTakeHome - Fin 1
         then findMax_loop n grossSalary targetAnnualTakeHome employerMatch rothIRA mid high mid
         else findMax_loop n grossSalary targetAnnualTakeHome employerMatch rothIRA low mid
                bestPercent)"

definition findMaxContributionForTarget :: "number \<Rightarrow> number \<Rightarrow> number \<Rightarrow> number \<Rightarrow> number" where
  "findMaxContributionForTarget grossSalary targetAnnualTakeHome employerMatch rothIRA =
     (let low = Fin 0;
          high = Math_min (Fin 100) ((EMPLOYEE_401K_LIMIT / grossSalary) * Fin 100);
          bestPercent = findMax_loop 30 grossSalary targetAnnualTakeHome employerMatch rothIRA
                          low high (Fin 0)
      in Math_round (bestPercent * Fin 10) / Fin 10)"


section \<open>FinancialCalculator (the snapshot src/script.js)\<close>

text \<open>
  \<open>src/script.js\<close> has the same \<open>TaxCalculator\<close>, \<open>calculateFutureValue\<close>,
  \<open>calculateAnnualWithdrawal\<close> and \<open>calculateBrokerageWithdrawalTaxes\<close>; the functions
  below differ from the Roth-aware snapshot and carry the suffix \<open>_script\<close>.
\<close>

record scenario401K_script =
  ks_contribution :: number
  ks_employerContribution :: number
  ks_total401KContribution :: number
  ks_additionalBrokerage :: number
  ks_totalFutureValue :: number
  ks_taxableIncome :: number
  ks_taxes :: taxes
  ks_takeHomePay :: number
  ks_futureValue401K :: number
  ks_futureValueAdditionalBrokerage :: number
  ks_grossSalary :: number

definition calculate401KScenario_script ::
  "number \<Rightarrow> number \<Rightarrow> number \<Rightarrow> number \<Rightarrow> nat \<Rightarrow> number option \<Rightarrow> scenario401K_script" where
  "calculate401KScenario_script grossSalary contributionPercent employerMatch investmentReturn
     years targetTakeHome =
     (let maxContribution =
            Math_min (grossSalary * (contributionPercent / Fin 100)) EMPLOYEE_401K_LIMIT;
          employerContribution =
            Math_min (grossSalary * (employerMatch / Fin 100)) (EMPLOYEE_401K_LIMIT * Fin 0.5);
          total401KContribution = maxContribution + employerContribution;
          taxableIncome = grossSalary - maxContribution;
          taxes = calculateTotalTaxes taxableIncome;
          takeHomePay = taxableIncome - tax_total taxes;
          additionalBrokerage =
            (case targetTakeHome of
               None \<Rightarrow> Fin 0
             | Some target \<Rightarrow>
                 if truthy targetTakeHome \<and> takeHomePay > target then takeHomePay - target
                 else Fin 0);
          futureValue401K = calculateFutureValue total401KContribution investmentReturn years;
          futureValueAdditionalBrokerage =
            calculateFutureValue additionalBrokerage investmentReturn years
      in \<lparr>ks_contribution = maxContribution,
          ks_employerContribution = employerContribution,
          ks_total401KContribution = total401KContribution,
          ks_additionalBrokerage = additionalBrokerage,
          ks_totalFutureValue = futureValue401K + futureValueAdditionalBrokerage,
          ks_taxableIncome = taxableIncome,
          ks_taxes = taxes,
          ks_takeHomePay = takeHomePay,
          ks_futureValue401K = futureValue401K,
          ks_futureValueAdditionalBrokerage = futureValueAdditionalBrokerage,
          ks_grossSalary = grossSalary\<rparr>)"

definition calculateNo401KScenario_script ::
  "number \<Rightarrow> number \<Rightarrow> number \<Rightarrow> nat \<Rightarrow> number option \<Rightarrow> scenarioNo401K" where
  "calculateNo401KScenario_script grossSalary contributionPercent investmentReturn years
     targetTakeHome =
     (let taxes = calculateTotalTaxes grossSalary;
          takeHomePay = grossSalary - tax_total taxes;
          brokerageInvestment =
            (if truthy targetTakeHome
             then (case targetTakeHome of
                     None \<Rightarrow> Fin 0
                   | Some target \<Rightarrow>
                       if takeHomePay > target then takeHomePay - target else Fin 0)
             else (let potentialContribution =
                         Math_min (grossSalary * (contributionPercent / Fin 100))
                           EMPLOYEE_401K_LIMIT
                   in potentialContribution
                      * (Fin 1 - (tax_federal taxes + tax_state taxes) / grossSalary)));
          futureValueBrokerage = calculateFutureValue brokerageInvestment investmentReturn years
      in \<lparr>n_taxes = taxes,
          n_takeHomePay = takeHomePay,
          n_brokerageInvestment = brokerageInvestment,
          n_futureValueBrokerage = futureValueBrokerage,
          n_grossSalary = grossSalary\<rparr>)"

definition calculateCombinedWithdrawalTaxes_script ::
  "number \<Rightarrow> number \<Rightarrow> number \<Rightarrow> number \<Rightarrow> nat \<Rightarrow> withdrawal_results" where
  "calculateCombinedWithdrawalTaxes_script futureValue401k futureValueBrokerage retirementIncome
     investmentReturn retirementYears =
     (let totalFutureValue = futureValue401k + futureValueBrokerage;
          lumpSumIncome = futureValue401k + retirementIncome;
          incomeTaxes = calculateTotalTaxes lumpSumIncome;
          capitalGains = futureValueBrokerage;
          longTermCapitalGainsRate = Fin 0.20;
          capitalGainsTaxes = capitalGains * longTermCapitalGainsRate;
          totalLumpSumTaxes = tax_total incomeTaxes + capitalGainsTaxes;
          results_lumpSum =
            \<lparr>ls_total = totalFutureValue,
             ls_taxes = totalLumpSumTaxes,
             ls_net = totalFutureValue - totalLumpSumTaxes,
             ls_taxRate =
               (if totalFutureValue > Fin 0
                then (totalLumpSumTaxes / totalFutureValue) * Fin 100 else Fin 0)\<rparr>;
          annualReturn = investmentReturn / Fin 100;
          totalAnnualWithdrawal =
            calculateAnnualWithdrawal totalFutureValue annualReturn retirementYears;
          proportion401k =
            (if totalFutureValue > Fin 0 then futureValue401k / totalFutureValue else Fin 0);
          annualFrom401k = totalAnnualWithdrawal * proportion401k;
          annualFromBrokerage = totalAnnualWithdrawal * (Fin 1 - proportion401k);
          annualTaxableIncome = annualFrom401k + retirementIncome;
          annualIncomeTaxes = calculateTotalTaxes annualTaxableIncome;
          annualCapitalGains = annualFromBrokerage * Fin 0.7;
          annualCapitalGainsTaxes = annualCapitalGains * longTermCapitalGainsRate;
          totalAnnualTaxes = tax_total annualIncomeTaxes + annualCapitalGainsTaxes;
          results_annual =
            \<lparr>an_withdrawal = totalAnnualWithdrawal,
             an_taxes = totalAnnualTaxes,
             an_net = totalAnnualWithdrawal - totalAnnualTaxes,
             an_taxRate =
               (if totalAnnualWithdrawal > Fin 0
                then (totalAnnualTaxes / totalAnnualWithdrawal) * Fin 100 else Fin 0)\<rparr>
      in \<lparr>lumpSum = results_lumpSum, annual = results_annual\<rparr>)"

fun findMax_loop_script ::
  "nat \<Rightarrow> number \<Rightarrow> number \<Rightarrow> number \<Rightarrow> number \<Rightarrow> number \<Rightarrow> number \<Rightarrow> number" where
  "findMax_loop_script 0 grossSalary targetAnnualTakeHome employerMatch low high bestPercent =
     bestPercent"
| "findMax_loop_script (Suc n) grossSalary targetAnnualTakeHome employerMatch low high
     bestPercent =
     (let mid = (low + high) / Fin 2;
          scenario = calculate401KScenario_script grossSalary mid employerMatch (Fin 7) 30
                       (Some targetAnnualTakeHome)
      in if ks_takeHomePay scenario \<ge> targetAnnualTakeHome - Fin 1
         then findMax_loop_script n grossSalary targetAnnualTakeHome employerMatch mid high mid
         else findMax_loop_script n grossSalary targetAnnualTakeHome employerMatch low mid
                bestPercent)"

definition findMaxContributionForTarget_script :: "number \<Rightarrow> number \<Rightarrow> number \<Rightarrow> number" where
  "findMaxContributionForTarget_script grossSalary targetAnnualTakeHome employerMatch =
     (let low = Fin 0;
          high = Math_min (Fin 100) ((EMPLOYEE_401K_LIMIT / grossSalary) * Fin 100);
          bestPercent = findMax_loop_script 30 grossSalary targetAnnualTakeHome employerMatch
                          low high (Fin 0)
      in Math_round (bestPercent * Fin 10) / Fin 10)"


section \<open>Auxiliary notions for the proofs\<close>

text \<open>
  The functions below are not part of the calculator. They describe, on the reals, what
  the embedded functions compute at finite arguments, and the lemmas of the next sections
  connect them to the embedded functions.
\<close>

text \<open>
  The finite value of a number (0 for the special values).
\<close>

fun real_of :: "number \<Rightarrow> real" where
  "real_of (Fin a) = a"
| "real_of _ = 0"

text \<open>
  The tax that one bracket adds for a finite income \<open>x\<close>, and the sum over a table.
\<close>

definition bracket_part :: "real \<Rightarrow> bracket \<Rightarrow> real" where
  "bracket_part x b =
     (if real_of (bracket_min b) < x
      then ((case bracket_max b of Fin hi \<Rightarrow> min x hi | _ \<Rightarrow> x) - real_of (bracket_min b))
           * real_of (bracket_rate b)
      else 0)"

fun tax_real :: "real \<Rightarrow> bracket list \<Rightarrow> real" where
  "tax_real x [] = 0"
| "tax_real x (b # bs) = bracket_part x b + tax_real x bs"

text \<open>
  A table is a chain from \<open>lo\<close> with rates in \<open>[0, R]\<close> when its first bracket starts
  at \<open>lo\<close>, every bracket ends where the next one starts, only the last one is unbounded,
  and every rate is finite, non-negative and at most \<open>R\<close>.
\<close>

fun chain :: "real \<Rightarrow> real \<Rightarrow> bracket list \<Rightarrow> bool" where
  "chain lo R [] = True"
| "chain lo R (b # bs) =
     (bracket_min b = Fin lo \<and> is_finite (bracket_rate b)
      \<and> 0 \<le> real_of (bracket_rate b) \<and> real_of (bracket_rate b) \<le> R
      \<and> (case bracket_max b of
            Fin hi \<Rightarrow> lo \<le> hi \<and> chain hi R bs
          | PInf \<Rightarrow> bs = []
          | _ \<Rightarrow> False))"

text \<open>
  Federal plus state plus FICA tax of a finite income.
\<close>

definition totalTax_real :: "real \<Rightarrow> real" where
  "totalTax_real x =
     tax_real x TAX_BRACKETS_federal_single + tax_real x TAX_BRACKETS_california_single
     + (min x 160200 * 0.062 + x * 0.0145)"

text \<open>
  Take-home pay of the two snapshots at finite arguments (salary, percent, Roth 401(k)
  cap, Roth IRA contribution).
\<close>

definition takeHome_real :: "real \<Rightarrow> real \<Rightarrow> real \<Rightarrow> real \<Rightarrow> real" where
  "takeHome_real s p rm ri =
     (let total = min (s * (p / 100)) 23000;
          roth = min total rm;
          ti = s - (total - roth)
      in ti - totalTax_real ti - roth - min ri 7000)"

definition takeHome_script_real :: "real \<Rightarrow> real \<Rightarrow> real" where
  "takeHome_script_real s p =
     (let ti = s - min (s * (p / 100)) 23000 in ti - totalTax_real ti)"

text \<open>
  The annuity factor of \<open>calculateFutureValue\<close> at a non-zero return.
\<close>

definition growth :: "real \<Rightarrow> nat \<Rightarrow> real" where
  "growth r y = ((1 + r / 100 / 12) ^ (y * 12) - 1) / (r / 100 / 12)"


section \<open>Arithmetic on finite numbers\<close>

lemma Math_min_Fin [simp]: "Math_min (Fin a) (Fin b) = Fin (min a b)"
  by (simp add: min_def)

lemma Math_min_PInf [simp]: "Math_min (Fin a) PInf = Fin a"
  by simp

lemma minus_Fin [simp]: "Fin a - Fin b = Fin (a - b)"
  by (simp add: minus_number_def)

lemma is_finite_iff: "is_finite n \<longleftrightarrow> (\<exists>a. n = Fin a)"
  by (cases n) auto

lemma Math_pow_Fin:
  "\<bar>a ^ n\<bar> < overflow_threshold \<Longrightarrow> Math_pow (Fin a) n = Fin (a ^ n)"
  by (cases n) (auto simp: abs_less_iff)

lemma Math_pow_Fin_pos: "0 < n \<Longrightarrow> Math_pow (Fin a) n = overflow (a ^ n)"
  by (cases n) simp_all

lemma zero_times_overflow:
  "x = PInf \<or> x = NInf \<Longrightarrow> Fin 0 * ((x - Fin 1) / Fin m) = NaN"
  by (auto simp: minus_number_def)

lemma overflow_threshold_gt_1: "1 < overflow_threshold"
  by (simp add: overflow_threshold_def)

lemma in_range_le_2:
  assumes "0 \<le> a" and "a \<le> 2" and "n \<le> 1000"
  shows "\<bar>a ^ n\<bar> < overflow_threshold"
proof -
  have "a ^ n \<le> 2 ^ n" using assms(2,1) by (rule power_mono)
  also have "(2::real) ^ n \<le> 2 ^ 1000" using assms(3) by (intro power_increasing) simp_all
  also have "(2::real) ^ 1000 < overflow_threshold" by (simp add: overflow_threshold_def)
  finally show ?thesis using assms(1) by simp
qed

lemma Math_pow_overflow:
  assumes "overflow_threshold \<le> \<bar>a ^ n\<bar>"
  shows "Math_pow (Fin a) n = PInf \<or> Math_pow (Fin a) n = NInf"
proof (cases n)
  case 0
  with assms overflow_threshold_gt_1 show ?thesis by simp
next
  case (Suc m)
  with assms show ?thesis by (auto simp: abs_if split: if_splits)
qed

section \<open>The tax engine\<close>

text \<open>
  Claim C8. For every income, \<open>calculateFICATax\<close> is the social-security part
  \<open>min(income, 160200) \<times> 0.062\<close> plus the uncapped Medicare part \<open>income \<times> 0.0145\<close>, and
  the \<open>total\<close> field returned by \<open>calculateTotalTaxes\<close> is the sum of its \<open>federal\<close>,
  \<open>state\<close> and \<open>fica\<close> fields (for every argument, finite or not).
\<close>

theorem fica_formula_and_total_is_sum:
  "calculateFICATax (Fin income) = Fin (min income 160200 * 0.062 + income * 0.0145)
   \<and> tax_total (calculateTotalTaxes x)
       = tax_federal (calculateTotalTaxes x) + tax_state (calculateTotalTaxes x)
         + tax_fica (calculateTotalTaxes x)"
  by (simp add: calculateFICATax_def SOCIAL_SECURITY_WAGE_BASE_def calculateTotalTaxes_def
      Let_def)

lemma calculateTax_loop_chain:
  "chain lo R bs \<Longrightarrow> calculateTax_loop (Fin x) bs (Fin acc) = Fin (acc + tax_real x bs)"
proof (induction bs arbitrary: lo acc)
  case Nil
  then show ?case by simp
next
  case (Cons b bs)
  from Cons.prems obtain r where r: "bracket_rate b = Fin r" and lo: "bracket_min b = Fin lo"
    by (auto simp: is_finite_iff)
  show ?case
  proof (cases "bracket_max b")
    case (Fin hi)
    with Cons.prems have "chain hi R bs" by simp
    from Cons.IH[OF this] show ?thesis
      using r lo Fin by (simp add: bracket_part_def Let_def)
  next
    case PInf
    with Cons.prems have "bs = []" by simp
    then show ?thesis using r lo PInf by (simp add: bracket_part_def Let_def)
  next
    case NInf
    with Cons.prems show ?thesis by simp
  next
    case NaN
    with Cons.prems show ?thesis by simp
  qed
qed

lemma tax_real_lipschitz:
  "chain lo R bs \<Longrightarrow> 0 \<le> R \<Longrightarrow> x \<le> y \<Longrightarrow>
     0 \<le> tax_real y bs - tax_real x bs
     \<and> tax_real y bs - tax_real x bs \<le> R * (max y lo - max x lo)"
proof (induction bs arbitrary: lo)
  case Nil
  then show ?case by (simp add: max_def)
next
  case (Cons b bs)
  from Cons.prems obtain r where r: "bracket_rate b = Fin r" and lo: "bracket_min b = Fin lo"
    and r0: "0 \<le> r" and rR: "r \<le> R"
    by (auto simp: is_finite_iff)
  show ?case
  proof (cases "bracket_max b")
    case (Fin hi)
    with Cons.prems have ch: "chain hi R bs" and lh: "lo \<le> hi" by simp_all
    define A where "A = min (max y lo) hi - min (max x lo) hi"
    have A0: "0 \<le> A" using \<open>x \<le> y\<close> unfolding A_def by (simp add: min_def max_def)
    have px: "bracket_part x b = r * (min (max x lo) hi - lo)" for x
      using r lo Fin lh by (simp add: bracket_part_def min_def max_def)
    have d: "bracket_part y b - bracket_part x b = r * A"
      unfolding px A_def by (simp add: algebra_simps)
    have "r * A \<le> R * A" using rR A0 by (rule mult_right_mono)
    moreover have "0 \<le> r * A" using r0 A0 by simp
    moreover have "A + (max y hi - max x hi) = max y lo - max x lo"
      using lh \<open>x \<le> y\<close> unfolding A_def by (simp add: min_def max_def)
    then have "R * A + R * (max y hi - max x hi) = R * (max y lo - max x lo)"
      by (metis distrib_left)
    ultimately show ?thesis using Cons.IH[OF ch Cons.prems(2,3)] d by simp
  next
    case PInf
    with Cons.prems have bs: "bs = []" by simp
    define A where "A = max y lo - max x lo"
    have A0: "0 \<le> A" using \<open>x \<le> y\<close> unfolding A_def by (simp add: max_def)
    have px: "bracket_part x b = r * (max x lo - lo)" for x
      using r lo PInf by (simp add: bracket_part_def max_def)
    have d: "bracket_part y b - bracket_part x b = r * A"
      unfolding px A_def by (simp add: algebra_simps)
    have "r * A \<le> R * A" using rR A0 by (rule mult_right_mono)
    moreover have "0 \<le> r * A" using r0 A0 by simp
    ultimately show ?thesis using d bs unfolding A_def by simp
  next
    case NInf
    with Cons.prems show ?thesis by simp
  next
    case NaN
    with Cons.prems show ?thesis by simp
  qed
qed

lemma tax_real_below: "chain lo R bs \<Longrightarrow> x \<le> lo \<Longrightarrow> tax_real x bs = 0"
proof (induction bs arbitrary: lo)
  case Nil
  then show ?case by simp
next
  case (Cons b bs)
  then show ?case
    by (cases "bracket_max b") (auto simp: bracket_part_def)
qed

lemma chain_federal: "chain 0 0.37 TAX_BRACKETS_federal_single"
  by (simp add: TAX_BRACKETS_federal_single_def)

lemma chain_california: "chain 0 0.123 TAX_BRACKETS_california_single"
  by (simp add: TAX_BRACKETS_california_single_def)

lemma calculateTax_Fin:
  "chain lo R bs \<Longrightarrow> calculateTax (Fin x) bs = Fin (tax_real x bs)"
  using calculateTax_loop_chain[of lo R bs x 0] by (simp add: calculateTax_def)

lemma calculateFederalTax_Fin:
  "calculateFederalTax (Fin x) = Fin (tax_real x TAX_BRACKETS_federal_single)"
  unfolding calculateFederalTax_def by (rule calculateTax_Fin[OF chain_federal])

lemma calculateStateTax_Fin:
  "calculateStateTax (Fin x) = Fin (tax_real x TAX_BRACKETS_california_single)"
  unfolding calculateStateTax_def by (rule calculateTax_Fin[OF chain_california])

lemma calculateFICATax_Fin:
  "calculateFICATax (Fin x) = Fin (min x 160200 * 0.062 + x * 0.0145)"
  by (simp add: calculateFICATax_def SOCIAL_SECURITY_WAGE_BASE_def Let_def)

lemma tax_total_Fin: "tax_total (calculateTotalTaxes (Fin x)) = Fin (totalTax_real x)"
  by (simp add: calculateTotalTaxes_def Let_def calculateFederalTax_Fin calculateStateTax_Fin
      calculateFICATax_Fin totalTax_real_def)

text \<open>
  Claim C6. Under the federal and the California table, \<open>calculateTax\<close> is monotone
  non-decreasing in the income: the tax at \<open>x\<close> is at most the tax at \<open>x + e\<close> for every
  \<open>x\<close> and every \<open>e > 0\<close>. The tax at income 0 is 0, and every income \<open>\<le> 0\<close> yields
  the tax 0.
\<close>

theorem calculateTax_monotone:
  "(0 < e \<longrightarrow>
      calculateTax (Fin x) TAX_BRACKETS_federal_single
        \<le> calculateTax (Fin (x + e)) TAX_BRACKETS_federal_single
      \<and> calculateTax (Fin x) TAX_BRACKETS_california_single
        \<le> calculateTax (Fin (x + e)) TAX_BRACKETS_california_single)
   \<and> calculateTax (Fin 0) TAX_BRACKETS_federal_single = Fin 0
   \<and> calculateTax (Fin 0) TAX_BRACKETS_california_single = Fin 0
   \<and> (x \<le> 0 \<longrightarrow>
        calculateTax (Fin x) TAX_BRACKETS_federal_single = Fin 0
        \<and> calculateTax (Fin x) TAX_BRACKETS_california_single = Fin 0)"
proof -
  have mono: "tax_real x bs \<le> tax_real (x + e) bs" if "chain 0 R bs" "0 \<le> R" "0 < e" for R bs
    using tax_real_lipschitz[OF that(1,2), of x "x + e"] that(3) by simp
  have zero: "tax_real z bs = 0" if "chain 0 R bs" "z \<le> 0" for R bs z
    using tax_real_below[OF that] .
  show ?thesis
    using mono[OF chain_federal] mono[OF chain_california]
      zero[OF chain_federal] zero[OF chain_california]
    by (simp add: calculateTax_Fin[OF chain_federal] calculateTax_Fin[OF chain_california])
qed

text \<open>
  Witness for C6: an income of 50000 raised by 1000, and the income \<open>-5\<close>.
\<close>

theorem calculateTax_monotone_witness:
  "(0::real) < 1000
   \<and> calculateTax (Fin 50000) TAX_BRACKETS_federal_single
       \<le> calculateTax (Fin (50000 + 1000)) TAX_BRACKETS_federal_single
   \<and> calculateTax (Fin 50000) TAX_BRACKETS_california_single
       \<le> calculateTax (Fin (50000 + 1000)) TAX_BRACKETS_california_single
   \<and> (- 5::real) \<le> 0
   \<and> calculateTax (Fin (- 5)) TAX_BRACKETS_federal_single = Fin 0
   \<and> calculateTax (Fin (- 5)) TAX_BRACKETS_california_single = Fin 0"
  using calculateTax_monotone[of 1000 50000] calculateTax_monotone[of 1 "- 5"]
  by simp

text \<open>
  The total tax is non-decreasing and grows by at most 56.95 cents per dollar (the top
  federal and state rates plus FICA), so what is left after tax is non-decreasing too.
\<close>

lemma totalTax_real_step:
  assumes "x \<le> y"
  shows "0 \<le> totalTax_real y - totalTax_real x"
    and "totalTax_real y - totalTax_real x \<le> 0.5695 * (y - x)"
proof -
  have m: "max y 0 - max x 0 \<le> y - x" "0 \<le> max y 0 - max x 0"
    using assms by (simp_all add: max_def)
  have f: "0 \<le> tax_real y TAX_BRACKETS_federal_single - tax_real x TAX_BRACKETS_federal_single"
    "tax_real y TAX_BRACKETS_federal_single - tax_real x TAX_BRACKETS_federal_single
       \<le> 0.37 * (max y 0 - max x 0)"
    using tax_real_lipschitz[OF chain_federal _ assms] by simp_all
  have c: "0 \<le> tax_real y TAX_BRACKETS_california_single
               - tax_real x TAX_BRACKETS_california_single"
    "tax_real y TAX_BRACKETS_california_single - tax_real x TAX_BRACKETS_california_single
       \<le> 0.123 * (max y 0 - max x 0)"
    using tax_real_lipschitz[OF chain_california _ assms] by simp_all
  have s: "0 \<le> min y 160200 - min x 160200" "min y 160200 - min x 160200 \<le> y - x"
    using assms by (simp_all add: min_def)
  show "0 \<le> totalTax_real y - totalTax_real x"
    unfolding totalTax_real_def using f(1) c(1) s(1) assms by simp
  show "totalTax_real y - totalTax_real x \<le> 0.5695 * (y - x)"
    unfolding totalTax_real_def using f(2) c(2) s(2) m(1) assms by simp
qed

lemma totalTax_real_zero: "x \<le> 0 \<Longrightarrow> totalTax_real x = 0.0765 * x"
  using tax_real_below[OF chain_federal, of x] tax_real_below[OF chain_california, of x]
  by (simp add: totalTax_real_def)

lemma keep_mono:
  assumes "x \<le> y"
  shows "x - totalTax_real x \<le> y - totalTax_real y"
  using totalTax_real_step(2)[OF assms] assms by simp

lemma totalTax_real_bounds:
  assumes "0 \<le> x"
  shows "0 \<le> totalTax_real x" and "totalTax_real x \<le> x"
  using totalTax_real_step[OF assms] totalTax_real_zero[of 0] by simp_all

lemma totalTax_real_low: "0 \<le> x \<Longrightarrow> x \<le> 10099 \<Longrightarrow> totalTax_real x = 0.1865 * x"
  by (simp add: totalTax_real_def TAX_BRACKETS_federal_single_def
      TAX_BRACKETS_california_single_def bracket_part_def)

section \<open>Future value\<close>




lemma calculateFutureValue_Fin:
  "r \<noteq> 0 \<Longrightarrow> \<bar>(1 + r / 100 / 12) ^ (y * 12)\<bar> < overflow_threshold \<Longrightarrow>
   calculateFutureValue (Fin c) (Fin r) y
     = Fin (c / 12 * (((1 + r / 100 / 12) ^ (y * 12) - 1) / (r / 100 / 12)))"
  by (simp add: calculateFutureValue_def Let_def Math_pow_Fin)

lemma growth_pos: "0 < r \<Longrightarrow> 0 < y \<Longrightarrow> 0 < growth r y"
proof -
  assume r: "0 < r" and y: "0 < y"
  have "1 < 1 + r / 100 / 12" using r by simp
  then have "1 < (1 + r / 100 / 12) ^ (y * 12)"
    using y by (intro one_less_power) simp_all
  then show ?thesis using r by (simp add: growth_def)
qed

lemma calculateFutureValue_growth:
  "r \<noteq> 0 \<Longrightarrow> \<bar>(1 + r / 100 / 12) ^ (y * 12)\<bar> < overflow_threshold \<Longrightarrow>
   calculateFutureValue (Fin c) (Fin r) y = Fin (c / 12 * growth r y)"
  by (simp add: calculateFutureValue_Fin growth_def)

lemma in_range_7_30: "\<bar>(1 + 7 / 100 / 12 :: real) ^ (30 * 12)\<bar> < overflow_threshold"
  by (rule in_range_le_2) simp_all

section \<open>The with-contribution scenario\<close>

text \<open>
  Claim C1, as amended. In the Roth-aware snapshot the employee contribution is
  \<open>min(salary \<times> pct/100, 23000)\<close>, the employer contribution is
  \<open>min(salary \<times> matchPct/100, employee contribution)\<close>, and so the match never exceeds
  the employee's own contribution. In \<open>src/script.js\<close> the employer contribution is
  \<open>min(salary \<times> matchPct/100, EMPLOYEE_401K_LIMIT \<times> 0.5)\<close>, that is, capped at 11500
  whatever the employee contributes.
\<close>

theorem employerContribution_formula:
  "k_contribution (calculate401KScenario (Fin s) (Fin p) (Fin m) r y t a rm ri)
     = Fin (min (s * (p / 100)) 23000)
   \<and> k_employerContribution (calculate401KScenario (Fin s) (Fin p) (Fin m) r y t a rm ri)
     = Fin (min (s * (m / 100)) (min (s * (p / 100)) 23000))
   \<and> k_employerContribution (calculate401KScenario (Fin s) (Fin p) (Fin m) r y t a rm ri)
     \<le> k_contribution (calculate401KScenario (Fin s) (Fin p) (Fin m) r y t a rm ri)
   \<and> ks_employerContribution (calculate401KScenario_script (Fin s) (Fin p) (Fin m) r y t)
     = Fin (min (s * (m / 100)) 11500)"
  by (simp add: calculate401KScenario_def calculate401KScenario_script_def Let_def
      EMPLOYEE_401K_LIMIT_def)

text \<open>
  Counterexample to C1 as stated: in \<open>src/script.js\<close>, at a salary of 100000, a
  contribution of 0 percent and a match of 50 percent, the employer contribution (11500)
  exceeds the employee's contribution (0).
\<close>

theorem employerContribution_script_counterexample:
  "\<not> (ks_employerContribution
         (calculate401KScenario_script (Fin 100000) (Fin 0) (Fin 50) (Fin 7) 30 None)
       \<le> ks_contribution
         (calculate401KScenario_script (Fin 100000) (Fin 0) (Fin 50) (Fin 7) 30 None))"
  by (simp add: calculate401KScenario_script_def Let_def EMPLOYEE_401K_LIMIT_def)

lemma fed150: "tax_real 150000 TAX_BRACKETS_federal_single = 29400"
  by (simp add: TAX_BRACKETS_federal_single_def bracket_part_def)

lemma cal150: "tax_real 150000 TAX_BRACKETS_california_single = 10703.475"
  by (simp add: TAX_BRACKETS_california_single_def bracket_part_def)

text \<open>
  Claim C2, as amended. For a salary of 150000, a contribution of 10 percent, a match of
  50 percent, a return of 7 percent over 30 years, no Roth carve-out and no target, the
  traditional contribution is 15000, the taxable income is 135000, and the total future
  value is strictly greater than the future value of the brokerage investment of
  \<open>calculateNo401KScenario\<close> on the same inputs; the employer contribution is 15000 in the
  Roth-aware snapshot (the match of 75000 capped at the employee's 15000) and 11500 in
  \<open>src/script.js\<close>.
\<close>

theorem worked_example:
  "k_trad401kContribution
     (calculate401KScenario (Fin 150000) (Fin 10) (Fin 50) (Fin 7) 30 None ''traditional''
        (Fin 0) (Fin 0)) = Fin 15000
   \<and> k_employerContribution
     (calculate401KScenario (Fin 150000) (Fin 10) (Fin 50) (Fin 7) 30 None ''traditional''
        (Fin 0) (Fin 0)) = Fin 15000
   \<and> k_taxableIncome
     (calculate401KScenario (Fin 150000) (Fin 10) (Fin 50) (Fin 7) 30 None ''traditional''
        (Fin 0) (Fin 0)) = Fin 135000
   \<and> n_futureValueBrokerage
       (calculateNo401KScenario (Fin 150000) (Fin 10) (Fin 7) 30 None (Fin 0))
     < k_totalFutureValue
       (calculate401KScenario (Fin 150000) (Fin 10) (Fin 50) (Fin 7) 30 None ''traditional''
          (Fin 0) (Fin 0))
   \<and> ks_contribution
     (calculate401KScenario_script (Fin 150000) (Fin 10) (Fin 50) (Fin 7) 30 None) = Fin 15000
   \<and> ks_employerContribution
     (calculate401KScenario_script (Fin 150000) (Fin 10) (Fin 50) (Fin 7) 30 None) = Fin 11500
   \<and> ks_taxableIncome
     (calculate401KScenario_script (Fin 150000) (Fin 10) (Fin 50) (Fin 7) 30 None) = Fin 135000
   \<and> n_futureValueBrokerage
       (calculateNo401KScenario_script (Fin 150000) (Fin 10) (Fin 7) 30 None)
     < ks_totalFutureValue
       (calculate401KScenario_script (Fin 150000) (Fin 10) (Fin 50) (Fin 7) 30 None)"
proof -
  have g: "0 < growth 7 30" by (rule growth_pos) simp_all
  have fv: "calculateFutureValue (Fin c) (Fin 7) 30 = Fin (c / 12 * growth 7 30)" for c
    by (rule calculateFutureValue_growth[OF _ in_range_7_30]) simp
  have lt: "a / 12 * growth 7 30 < b / 12 * growth 7 30" if "a < b" for a b
    using that g by (simp add: divide_strict_right_mono)
  have l1: "(2197930500 / 200000) / 12 * growth 7 30 < 30000 / 12 * growth 7 30"
    by (rule lt) simp
  have l2: "(2197930500 / 200000) / 12 * growth 7 30 < 26500 / 12 * growth 7 30"
    by (rule lt) simp
  show ?thesis
    using l1 l2
    by (simp add: calculate401KScenario_def calculate401KScenario_script_def
        calculateNo401KScenario_def calculateNo401KScenario_script_def Let_def
        EMPLOYEE_401K_LIMIT_def fv calculateTotalTaxes_def calculateFederalTax_Fin
        calculateStateTax_Fin fed150 cal150 calculateFICATax_Fin)
qed

text \<open>
  Counterexample to C2 as stated: the employer contribution of the worked example is
  not 7500, in either snapshot.
\<close>

theorem worked_example_counterexample:
  "\<not> (k_employerContribution
         (calculate401KScenario (Fin 150000) (Fin 10) (Fin 50) (Fin 7) 30 None ''traditional''
            (Fin 0) (Fin 0)) = Fin 7500)
   \<and> \<not> (ks_employerContribution
         (calculate401KScenario_script (Fin 150000) (Fin 10) (Fin 50) (Fin 7) 30 None)
        = Fin 7500)"
  by (simp add: calculate401KScenario_def calculate401KScenario_script_def Let_def
      EMPLOYEE_401K_LIMIT_def)

text \<open>
  Claim C9. For a salary \<open>> 0\<close>, a contribution percent in \<open>[0, 100]\<close> and a non-negative
  Roth 401(k) cap (the default 0 included), the taxable income returned by
  \<open>calculate401KScenario\<close> is non-negative, because the traditional contribution never
  exceeds the salary. \<open>src/script.js\<close> has no Roth cap, and the same holds there.
\<close>

theorem taxableIncome_nonneg:
  assumes "0 < s" and "0 \<le> p" and "p \<le> 100" and "0 \<le> rm"
  shows "Fin 0 \<le> k_taxableIncome
                    (calculate401KScenario (Fin s) (Fin p) m r y t a (Fin rm) ri)
         \<and> k_trad401kContribution
             (calculate401KScenario (Fin s) (Fin p) m r y t a (Fin rm) ri) \<le> Fin s
         \<and> Fin 0 \<le> ks_taxableIncome (calculate401KScenario_script (Fin s) (Fin p) m r y t)
         \<and> ks_contribution (calculate401KScenario_script (Fin s) (Fin p) m r y t) \<le> Fin s"
proof -
  define tc where "tc = min (s * (p / 100)) 23000"
  have "s * (p / 100) \<le> s * 1"
    using assms by (intro mult_left_mono) simp_all
  then have le: "tc \<le> s" unfolding tc_def by simp
  have ge: "0 \<le> tc" unfolding tc_def using assms by simp
  have tr: "tc - min tc rm \<le> s"
    using le ge assms(4) by (simp add: min_def)
  have f1: "k_taxableIncome (calculate401KScenario (Fin s) (Fin p) m r y t a (Fin rm) ri)
              = Fin (s - (tc - min tc rm))"
    and f2: "k_trad401kContribution (calculate401KScenario (Fin s) (Fin p) m r y t a (Fin rm) ri)
              = Fin (tc - min tc rm)"
    and f3: "ks_taxableIncome (calculate401KScenario_script (Fin s) (Fin p) m r y t)
              = Fin (s - tc)"
    and f4: "ks_contribution (calculate401KScenario_script (Fin s) (Fin p) m r y t) = Fin tc"
    unfolding tc_def
    by (simp_all add: calculate401KScenario_def calculate401KScenario_script_def Let_def
        EMPLOYEE_401K_LIMIT_def)
  show ?thesis
    unfolding f1 f2 f3 f4 less_eq_number.simps using le tr by simp
qed

text \<open>
  Witness for C9: the worked example with a Roth 401(k) cap of 5000.
\<close>

theorem taxableIncome_nonneg_witness:
  "(0::real) < 150000 \<and> (0::real) \<le> 10 \<and> (10::real) \<le> 100 \<and> (0::real) \<le> 5000
   \<and> Fin 0 \<le> k_taxableIncome
        (calculate401KScenario (Fin 150000) (Fin 10) (Fin 50) (Fin 7) 30 None ''traditional''
           (Fin 5000) (Fin 0))
   \<and> Fin 0 \<le> ks_taxableIncome
        (calculate401KScenario_script (Fin 150000) (Fin 10) (Fin 50) (Fin 7) 30 None)"
  using taxableIncome_nonneg[of 150000 10 5000 "Fin 50" "Fin 7" 30 None "''traditional''" "Fin 0"]
  by simp

lemma k_takeHomePay_Fin:
  "k_takeHomePay (calculate401KScenario (Fin s) (Fin p) m r y t a (Fin rm) (Fin ri))
     = Fin (takeHome_real s p rm ri)"
  by (simp add: calculate401KScenario_def Let_def EMPLOYEE_401K_LIMIT_def tax_total_Fin
      takeHome_real_def)

lemma ks_takeHomePay_Fin:
  "ks_takeHomePay (calculate401KScenario_script (Fin s) (Fin p) m r y t)
     = Fin (takeHome_script_real s p)"
  by (simp add: calculate401KScenario_script_def Let_def EMPLOYEE_401K_LIMIT_def tax_total_Fin
      takeHome_script_real_def)

lemma takeHome_real_antimono:
  assumes "0 \<le> s" "p \<le> q"
  shows "takeHome_real s q rm ri \<le> takeHome_real s p rm ri"
proof -
  define t1 where "t1 = min (s * (p / 100)) 23000"
  define t2 where "t2 = min (s * (q / 100)) 23000"
  have "s * (p / 100) \<le> s * (q / 100)"
    using assms by (simp add: mult_left_mono)
  then have t: "t1 \<le> t2" unfolding t1_def t2_def by (simp add: min_def)
  have roth: "min t1 rm \<le> min t2 rm" using t by (simp add: min_def)
  have trad: "t1 - min t1 rm \<le> t2 - min t2 rm" using t by (simp add: min_def)
  have "s - (t2 - min t2 rm) \<le> s - (t1 - min t1 rm)" using trad by simp
  from keep_mono[OF this] roth show ?thesis
    unfolding takeHome_real_def Let_def t1_def[symmetric] t2_def[symmetric] by simp
qed

lemma takeHome_script_real_antimono:
  assumes "0 \<le> s" "p \<le> q"
  shows "takeHome_script_real s q \<le> takeHome_script_real s p"
proof -
  have "s * (p / 100) \<le> s * (q / 100)"
    using assms by (simp add: mult_left_mono)
  then have "s - min (s * (q / 100)) 23000 \<le> s - min (s * (p / 100)) 23000"
    by (simp add: min_def)
  from keep_mono[OF this] show ?thesis
    unfolding takeHome_script_real_def Let_def by simp
qed

text \<open>
  Claim C10. With every other input fixed (the salary non-negative, the Roth amounts
  finite), the take-home pay returned by \<open>calculate401KScenario\<close> is monotone
  non-increasing in the contribution percent: a higher percent never gives a higher
  take-home pay. It holds for every pair of percents \<open>p \<le> q\<close>, those of \<open>[0, 100]\<close>
  included, and in both snapshots.
\<close>

theorem takeHomePay_antimono_in_percent:
  assumes "0 \<le> s" and "p \<le> q"
  shows "k_takeHomePay (calculate401KScenario (Fin s) (Fin q) m r y t a (Fin rm) (Fin ri))
           \<le> k_takeHomePay (calculate401KScenario (Fin s) (Fin p) m r y t a (Fin rm) (Fin ri))
         \<and> ks_takeHomePay (calculate401KScenario_script (Fin s) (Fin q) m r y t)
           \<le> ks_takeHomePay (calculate401KScenario_script (Fin s) (Fin p) m r y t)"
  using takeHome_real_antimono[OF assms] takeHome_script_real_antimono[OF assms]
  by (simp add: k_takeHomePay_Fin ks_takeHomePay_Fin)

text \<open>
  Witness for C10: the worked example at 5 and at 10 percent.
\<close>

theorem takeHomePay_antimono_in_percent_witness:
  "(0::real) \<le> 150000 \<and> (5::real) \<le> 10
   \<and> k_takeHomePay (calculate401KScenario (Fin 150000) (Fin 10) (Fin 50) (Fin 7) 30 None
        ''traditional'' (Fin 0) (Fin 0))
     \<le> k_takeHomePay (calculate401KScenario (Fin 150000) (Fin 5) (Fin 50) (Fin 7) 30 None
        ''traditional'' (Fin 0) (Fin 0))
   \<and> ks_takeHomePay (calculate401KScenario_script (Fin 150000) (Fin 10) (Fin 50) (Fin 7) 30 None)
     \<le> ks_takeHomePay (calculate401KScenario_script (Fin 150000) (Fin 5) (Fin 50) (Fin 7) 30 None)"
  using takeHomePay_antimono_in_percent[of 150000 5 10 "Fin 50" "Fin 7" 30 None "''traditional''"
      0 0]
  by simp

section \<open>Withdrawals\<close>

text \<open>
  Claim C3 fails on the code: \<open>calculateBrokerageWithdrawalTaxes\<close> divides by the
  brokerage value and by the annual withdrawal without a guard. At a brokerage value of 0
  both of its \<open>taxRate\<close> fields are \<open>NaN\<close>, while \<open>calculateCombinedWithdrawalTaxes\<close>,
  which guards both divisions, returns the rate 0 when every bucket is 0.
\<close>

theorem brokerage_taxRate_at_zero:
  "ls_taxRate (lumpSum (calculateBrokerageWithdrawalTaxes (Fin 0) (Fin 0) (Fin 7) 20)) = NaN
   \<and> an_taxRate (annual (calculateBrokerageWithdrawalTaxes (Fin 0) (Fin 0) (Fin 7) 20)) = NaN
   \<and> ls_taxRate (lumpSum (calculateCombinedWithdrawalTaxes (Fin 0) (Fin 0) (Fin 0) (Fin 0)
        (Fin 0) (Fin 0) (Fin 7) 20)) = Fin 0
   \<and> an_taxRate (annual (calculateCombinedWithdrawalTaxes (Fin 0) (Fin 0) (Fin 0) (Fin 0)
        (Fin 0) (Fin 0) (Fin 7) 20)) = Fin 0"
proof -
  have "\<bar>(107 / 100 :: real) ^ 20\<bar> < overflow_threshold"
    by (rule in_range_le_2) simp_all
  then have p: "Math_pow (Fin (107 / 100)) 20 = Fin ((107 / 100) ^ 20)"
    by (rule Math_pow_Fin)
  have "(1::real) < (107 / 100) ^ 20"
    by (rule one_less_power) simp_all
  then have d: "(107 / 100 :: real) ^ 20 \<noteq> 1" by (metis less_irrefl)
  have w: "calculateAnnualWithdrawal (Fin 0) (Fin (7 / 100)) 20 = Fin 0"
    using d by (simp add: calculateAnnualWithdrawal_def Let_def p)
  show ?thesis
    unfolding calculateBrokerageWithdrawalTaxes_def calculateCombinedWithdrawalTaxes_def Let_def
    by (simp add: w)
qed

text \<open>
  Claim C5, as amended. For non-negative buckets and a non-negative retirement income,
  the lump-sum result of \<open>calculateCombinedWithdrawalTaxes\<close> has \<open>net \<le> total\<close> and a
  tax rate \<open>\<ge> 0\<close>; the tax rate is at most 100 when the retirement income is 0. (The
  tax on the retirement income is counted among the taxes of the withdrawal, so with other
  income the rate can exceed 100.) Both snapshots.
\<close>

theorem lumpSum_bounds:
  assumes "0 \<le> ft" "0 \<le> fr" "0 \<le> fe" "0 \<le> fi" "0 \<le> fb" "0 \<le> inc"
  shows "ls_net (lumpSum (calculateCombinedWithdrawalTaxes (Fin ft) (Fin fr) (Fin fe) (Fin fi)
             (Fin fb) (Fin inc) r y))
           \<le> ls_total (lumpSum (calculateCombinedWithdrawalTaxes (Fin ft) (Fin fr) (Fin fe)
               (Fin fi) (Fin fb) (Fin inc) r y))
         \<and> Fin 0 \<le> ls_taxRate (lumpSum (calculateCombinedWithdrawalTaxes (Fin ft) (Fin fr)
               (Fin fe) (Fin fi) (Fin fb) (Fin inc) r y))
         \<and> (inc = 0 \<longrightarrow>
              ls_taxRate (lumpSum (calculateCombinedWithdrawalTaxes (Fin ft) (Fin fr) (Fin fe)
                (Fin fi) (Fin fb) (Fin inc) r y)) \<le> Fin 100)
         \<and> ls_net (lumpSum (calculateCombinedWithdrawalTaxes_script (Fin ft) (Fin fb) (Fin inc)
               r y))
           \<le> ls_total (lumpSum (calculateCombinedWithdrawalTaxes_script (Fin ft) (Fin fb)
               (Fin inc) r y))
         \<and> Fin 0 \<le> ls_taxRate (lumpSum (calculateCombinedWithdrawalTaxes_script (Fin ft)
               (Fin fb) (Fin inc) r y))
         \<and> (inc = 0 \<longrightarrow>
              ls_taxRate (lumpSum (calculateCombinedWithdrawalTaxes_script (Fin ft) (Fin fb)
                (Fin inc) r y)) \<le> Fin 100)"
proof -
  define T where "T = totalTax_real (inc + ft + fe)"
  define tot where "tot = ft + fr + fe + fi + fb"
  define tx where "tx = T + fb * 0.2"
  define T' where "T' = totalTax_real (ft + inc)"
  define tot' where "tot' = ft + fb"
  define tx' where "tx' = T' + fb * 0.2"
  have T0: "0 \<le> T" unfolding T_def using assms by (intro totalTax_real_bounds) simp
  have T'0: "0 \<le> T'" unfolding T'_def using assms by (intro totalTax_real_bounds) simp
  have TU: "T \<le> ft + fe" if "inc = 0"
    unfolding T_def using assms that totalTax_real_bounds(2)[of "ft + fe"] by simp
  have T'U: "T' \<le> ft" if "inc = 0"
    unfolding T'_def using assms that totalTax_real_bounds(2)[of ft] by simp
  have rate: "0 \<le> (if 0 < d then x / d * 100 else 0)"
    "x \<le> d \<Longrightarrow> (if 0 < d then x / d * 100 else 0) \<le> 100"
    if "0 \<le> x" for x d :: real
    using that by (simp_all add: divide_le_eq)
  have a: "0 \<le> tx" unfolding tx_def using T0 assms by simp
  have a': "0 \<le> tx'" unfolding tx'_def using T'0 assms by simp
  have b: "tx \<le> tot" if "inc = 0"
    unfolding tx_def tot_def using TU[OF that] assms by simp
  have b': "tx' \<le> tot'" if "inc = 0"
    unfolding tx'_def tot'_def using T'U[OF that] assms by simp
  have f: "ls_net (lumpSum (calculateCombinedWithdrawalTaxes (Fin ft) (Fin fr) (Fin fe) (Fin fi)
             (Fin fb) (Fin inc) r y)) = Fin (tot - tx)"
    "ls_total (lumpSum (calculateCombinedWithdrawalTaxes (Fin ft) (Fin fr) (Fin fe) (Fin fi)
             (Fin fb) (Fin inc) r y)) = Fin tot"
    "ls_taxRate (lumpSum (calculateCombinedWithdrawalTaxes (Fin ft) (Fin fr) (Fin fe) (Fin fi)
             (Fin fb) (Fin inc) r y)) = Fin (if 0 < tot then tx / tot * 100 else 0)"
    unfolding tot_def tx_def T_def
    by (simp_all add: calculateCombinedWithdrawalTaxes_def Let_def tax_total_Fin)
  have f': "ls_net (lumpSum (calculateCombinedWithdrawalTaxes_script (Fin ft) (Fin fb) (Fin inc)
               r y)) = Fin (tot' - tx')"
    "ls_total (lumpSum (calculateCombinedWithdrawalTaxes_script (Fin ft) (Fin fb) (Fin inc)
               r y)) = Fin tot'"
    "ls_taxRate (lumpSum (calculateCombinedWithdrawalTaxes_script (Fin ft) (Fin fb) (Fin inc)
               r y)) = Fin (if 0 < tot' then tx' / tot' * 100 else 0)"
    unfolding tot'_def tx'_def T'_def
    by (simp_all add: calculateCombinedWithdrawalTaxes_script_def Let_def tax_total_Fin)
  show ?thesis
    unfolding f f' less_eq_number.simps
    using a a' rate(1)[OF a] rate(1)[OF a'] rate(2)[OF a b] rate(2)[OF a' b']
    by (intro conjI impI) simp_all
qed

text \<open>
  Witness for C5: buckets of 100000, 50000, 50000, 20000 and 30000 and no retirement
  income.
\<close>

theorem lumpSum_bounds_witness:
  "(0::real) \<le> 100000 \<and> (0::real) \<le> 50000 \<and> (0::real) \<le> 20000 \<and> (0::real) \<le> 30000
   \<and> (0::real) \<le> 0 \<and> (0::real) = 0
   \<and> ls_net (lumpSum (calculateCombinedWithdrawalTaxes (Fin 100000) (Fin 50000) (Fin 50000)
         (Fin 20000) (Fin 30000) (Fin 0) (Fin 7) 20))
       \<le> ls_total (lumpSum (calculateCombinedWithdrawalTaxes (Fin 100000) (Fin 50000)
           (Fin 50000) (Fin 20000) (Fin 30000) (Fin 0) (Fin 7) 20))
   \<and> Fin 0 \<le> ls_taxRate (lumpSum (calculateCombinedWithdrawalTaxes (Fin 100000) (Fin 50000)
         (Fin 50000) (Fin 20000) (Fin 30000) (Fin 0) (Fin 7) 20))
   \<and> ls_taxRate (lumpSum (calculateCombinedWithdrawalTaxes (Fin 100000) (Fin 50000)
         (Fin 50000) (Fin 20000) (Fin 30000) (Fin 0) (Fin 7) 20)) \<le> Fin 100
   \<and> ls_net (lumpSum (calculateCombinedWithdrawalTaxes_script (Fin 100000) (Fin 30000) (Fin 0)
         (Fin 7) 20))
       \<le> ls_total (lumpSum (calculateCombinedWithdrawalTaxes_script (Fin 100000) (Fin 30000)
           (Fin 0) (Fin 7) 20))
   \<and> Fin 0 \<le> ls_taxRate (lumpSum (calculateCombinedWithdrawalTaxes_script (Fin 100000)
         (Fin 30000) (Fin 0) (Fin 7) 20))
   \<and> ls_taxRate (lumpSum (calculateCombinedWithdrawalTaxes_script (Fin 100000) (Fin 30000)
         (Fin 0) (Fin 7) 20)) \<le> Fin 100"
  using lumpSum_bounds[of 100000 50000 50000 20000 30000 0 "Fin 7" 20]
  by simp

text \<open>
  Counterexample to C5 as stated: with one dollar in the traditional bucket and a
  retirement income of 100000 the lump-sum tax rate is above 100.
\<close>

theorem lumpSum_taxRate_counterexample:
  "\<not> (ls_taxRate (lumpSum (calculateCombinedWithdrawalTaxes (Fin 1) (Fin 0) (Fin 0) (Fin 0)
          (Fin 0) (Fin 100000) (Fin 7) 20)) \<le> Fin 100)
   \<and> \<not> (ls_taxRate (lumpSum (calculateCombinedWithdrawalTaxes_script (Fin 1) (Fin 0)
          (Fin 100000) (Fin 7) 20)) \<le> Fin 100)"
proof -
  have "totalTax_real 100001 = 31103.8845"
    by (simp add: totalTax_real_def TAX_BRACKETS_federal_single_def
        TAX_BRACKETS_california_single_def bracket_part_def)
  then show ?thesis
    by (simp add: calculateCombinedWithdrawalTaxes_def calculateCombinedWithdrawalTaxes_script_def
        Let_def tax_total_Fin)
qed

section \<open>The solver\<close>

lemma findMax_loop_best:
  "\<exists>b'. findMax_loop n (Fin s) (Fin tg) em (Fin ri) (Fin lo) (Fin hi) (Fin b) = Fin b'
        \<and> (b' = b \<or> tg - 1 \<le> takeHome_real s b' 0 ri)"
proof (induction n arbitrary: lo hi b)
  case 0
  then show ?case by simp
next
  case (Suc n)
  define mid where "mid = (lo + hi) / 2"
  have step: "findMax_loop (Suc n) (Fin s) (Fin tg) em (Fin ri) (Fin lo) (Fin hi) (Fin b)
      = (if tg - 1 \<le> takeHome_real s mid 0 ri
         then findMax_loop n (Fin s) (Fin tg) em (Fin ri) (Fin mid) (Fin hi) (Fin mid)
         else findMax_loop n (Fin s) (Fin tg) em (Fin ri) (Fin lo) (Fin mid) (Fin b))"
    unfolding mid_def by (simp add: Let_def k_takeHomePay_Fin)
  show ?case
  proof (cases "tg - 1 \<le> takeHome_real s mid 0 ri")
    case True
    from Suc.IH[of mid hi mid]
    obtain b' where l: "findMax_loop n (Fin s) (Fin tg) em (Fin ri) (Fin mid) (Fin hi) (Fin mid)
        = Fin b'"
      and d: "b' = mid \<or> tg - 1 \<le> takeHome_real s b' 0 ri"
      by blast
    from d True have "tg - 1 \<le> takeHome_real s b' 0 ri" by blast
    with l True show ?thesis unfolding step by simp
  next
    case False
    from Suc.IH[of lo mid b] False show ?thesis unfolding step by simp
  qed
qed

lemma findMax_loop_unreachable:
  assumes "0 \<le> s" and "takeHome_real s 0 0 ri < tg - 1"
  shows "0 \<le> lo \<Longrightarrow> 0 \<le> hi \<Longrightarrow>
         findMax_loop n (Fin s) (Fin tg) em (Fin ri) (Fin lo) (Fin hi) (Fin b) = Fin b"
proof (induction n arbitrary: hi)
  case 0
  then show ?case by simp
next
  case (Suc n)
  have mid: "0 \<le> (lo + hi) / 2" using Suc.prems by simp
  from takeHome_real_antimono[OF assms(1) mid, of 0 ri] assms(2)
  have "\<not> tg - 1 \<le> takeHome_real s ((lo + hi) / 2) 0 ri" by simp
  with Suc.IH[OF Suc.prems(1) mid] show ?case
    by (simp add: Let_def k_takeHomePay_Fin)
qed

lemma findMax_loop_script_best:
  "\<exists>b'. findMax_loop_script n (Fin s) (Fin tg) em (Fin lo) (Fin hi) (Fin b) = Fin b'
        \<and> (b' = b \<or> tg - 1 \<le> takeHome_script_real s b')"
proof (induction n arbitrary: lo hi b)
  case 0
  then show ?case by simp
next
  case (Suc n)
  define mid where "mid = (lo + hi) / 2"
  have step: "findMax_loop_script (Suc n) (Fin s) (Fin tg) em (Fin lo) (Fin hi) (Fin b)
      = (if tg - 1 \<le> takeHome_script_real s mid
         then findMax_loop_script n (Fin s) (Fin tg) em (Fin mid) (Fin hi) (Fin mid)
         else findMax_loop_script n (Fin s) (Fin tg) em (Fin lo) (Fin mid) (Fin b))"
    unfolding mid_def by (simp add: Let_def ks_takeHomePay_Fin)
  show ?case
  proof (cases "tg - 1 \<le> takeHome_script_real s mid")
    case True
    from Suc.IH[of mid hi mid]
    obtain b' where l: "findMax_loop_script n (Fin s) (Fin tg) em (Fin mid) (Fin hi) (Fin mid)
        = Fin b'"
      and d: "b' = mid \<or> tg - 1 \<le> takeHome_script_real s b'"
      by blast
    from d True have "tg - 1 \<le> takeHome_script_real s b'" by blast
    with l True show ?thesis unfolding step by simp
  next
    case False
    from Suc.IH[of lo mid b] False show ?thesis unfolding step by simp
  qed
qed

lemma findMax_loop_script_unreachable:
  assumes "0 \<le> s" and "takeHome_script_real s 0 < tg - 1"
  shows "0 \<le> lo \<Longrightarrow> 0 \<le> hi \<Longrightarrow>
         findMax_loop_script n (Fin s) (Fin tg) em (Fin lo) (Fin hi) (Fin b) = Fin b"
proof (induction n arbitrary: hi)
  case 0
  then show ?case by simp
next
  case (Suc n)
  have mid: "0 \<le> (lo + hi) / 2" using Suc.prems by simp
  from takeHome_script_real_antimono[OF assms(1) mid] assms(2)
  have "\<not> tg - 1 \<le> takeHome_script_real s ((lo + hi) / 2)" by simp
  with Suc.IH[OF Suc.prems(1) mid] show ?case
    by (simp add: Let_def ks_takeHomePay_Fin)
qed

lemma solver_high:
  "0 < s \<Longrightarrow> Math_min (Fin 100) ((EMPLOYEE_401K_LIMIT / Fin s) * Fin 100)
     = Fin (min 100 (23000 / s * 100))"
  by (simp add: EMPLOYEE_401K_LIMIT_def)

lemma round_tenth: "\<bar>real_of_int \<lfloor>b * 10 + 1 / 2\<rfloor> / 10 - b\<bar> \<le> 1 / 20" for b :: real
proof -
  have "real_of_int \<lfloor>b * 10 + 1 / 2\<rfloor> \<le> b * 10 + 1 / 2" by (rule of_int_floor_le)
  moreover have "b * 10 + 1 / 2 < real_of_int \<lfloor>b * 10 + 1 / 2\<rfloor> + 1" by linarith
  ultimately show ?thesis by linarith
qed

lemma solver_roth_aware:
  assumes "0 < s"
  shows "\<exists>best.
           findMax_loop 30 (Fin s) (Fin tg) em (Fin ri) (Fin 0)
             (Math_min (Fin 100) ((EMPLOYEE_401K_LIMIT / Fin s) * Fin 100)) (Fin 0) = Fin best
           \<and> findMaxContributionForTarget (Fin s) (Fin tg) em (Fin ri)
               = Fin (of_int \<lfloor>best * 10 + 1 / 2\<rfloor> / 10)
           \<and> \<bar>of_int \<lfloor>best * 10 + 1 / 2\<rfloor> / 10 - best\<bar> \<le> 1 / 20
           \<and> (Fin tg - Fin 1 \<le> k_takeHomePay (calculate401KScenario (Fin s) (Fin 0) em (Fin 7)
                  30 (Some (Fin tg)) ''traditional'' (Fin 0) (Fin ri))
                \<longrightarrow> Fin tg - Fin 1 \<le> k_takeHomePay (calculate401KScenario (Fin s) (Fin best)
                      em (Fin 7) 30 (Some (Fin tg)) ''traditional'' (Fin 0) (Fin ri)))
           \<and> (k_takeHomePay (calculate401KScenario (Fin s) (Fin 0) em (Fin 7)
                  30 (Some (Fin tg)) ''traditional'' (Fin 0) (Fin ri)) < Fin tg - Fin 1
                \<longrightarrow> findMaxContributionForTarget (Fin s) (Fin tg) em (Fin ri) = Fin 0)"
proof -
  define hi where "hi = min 100 (23000 / s * 100)"
  have hi: "Math_min (Fin 100) ((EMPLOYEE_401K_LIMIT / Fin s) * Fin 100) = Fin hi"
    unfolding hi_def by (rule solver_high[OF assms])
  have hi0: "0 \<le> hi" unfolding hi_def using assms by simp
  from findMax_loop_best[of 30 s tg em ri 0 hi 0]
  obtain best where best: "findMax_loop 30 (Fin s) (Fin tg) em (Fin ri) (Fin 0) (Fin hi) (Fin 0)
      = Fin best"
    and ok: "best = 0 \<or> tg - 1 \<le> takeHome_real s best 0 ri"
    by blast
  have ret: "findMaxContributionForTarget (Fin s) (Fin tg) em (Fin ri)
      = Fin (of_int \<lfloor>best * 10 + 1 / 2\<rfloor> / 10)"
    by (simp add: findMaxContributionForTarget_def Let_def hi best)
  have reach: "tg - 1 \<le> takeHome_real s best 0 ri" if "tg - 1 \<le> takeHome_real s 0 0 ri"
    using ok that by auto
  have unreach: "best = 0" if "takeHome_real s 0 0 ri < tg - 1"
    using findMax_loop_unreachable[of s ri tg 0 hi 30 em 0] that assms hi0 best by simp
  show ?thesis
    apply (rule exI[of _ best])
    unfolding hi ret k_takeHomePay_Fin minus_Fin less_eq_number.simps less_number.simps
    using best round_tenth[of best] reach unreach by auto
qed

lemma solver_script:
  assumes "0 < s"
  shows "\<exists>best.
           findMax_loop_script 30 (Fin s) (Fin tg) em (Fin 0)
             (Math_min (Fin 100) ((EMPLOYEE_401K_LIMIT / Fin s) * Fin 100)) (Fin 0) = Fin best
           \<and> findMaxContributionForTarget_script (Fin s) (Fin tg) em
               = Fin (of_int \<lfloor>best * 10 + 1 / 2\<rfloor> / 10)
           \<and> \<bar>of_int \<lfloor>best * 10 + 1 / 2\<rfloor> / 10 - best\<bar> \<le> 1 / 20
           \<and> (Fin tg - Fin 1 \<le> ks_takeHomePay (calculate401KScenario_script (Fin s) (Fin 0) em
                  (Fin 7) 30 (Some (Fin tg)))
                \<longrightarrow> Fin tg - Fin 1 \<le> ks_takeHomePay (calculate401KScenario_script (Fin s)
                      (Fin best) em (Fin 7) 30 (Some (Fin tg))))
           \<and> (ks_takeHomePay (calculate401KScenario_script (Fin s) (Fin 0) em (Fin 7) 30
                  (Some (Fin tg))) < Fin tg - Fin 1
                \<longrightarrow> findMaxContributionForTarget_script (Fin s) (Fin tg) em = Fin 0)"
proof -
  define hi where "hi = min 100 (23000 / s * 100)"
  have hi: "Math_min (Fin 100) ((EMPLOYEE_401K_LIMIT / Fin s) * Fin 100) = Fin hi"
    unfolding hi_def by (rule solver_high[OF assms])
  have hi0: "0 \<le> hi" unfolding hi_def using assms by simp
  from findMax_loop_script_best[of 30 s tg em 0 hi 0]
  obtain best where best: "findMax_loop_script 30 (Fin s) (Fin tg) em (Fin 0) (Fin hi) (Fin 0)
      = Fin best"
    and ok: "best = 0 \<or> tg - 1 \<le> takeHome_script_real s best"
    by blast
  have ret: "findMaxContributionForTarget_script (Fin s) (Fin tg) em
      = Fin (of_int \<lfloor>best * 10 + 1 / 2\<rfloor> / 10)"
    by (simp add: findMaxContributionForTarget_script_def Let_def hi best)
  have reach: "tg - 1 \<le> takeHome_script_real s best" if "tg - 1 \<le> takeHome_script_real s 0"
    using ok that by auto
  have unreach: "best = 0" if "takeHome_script_real s 0 < tg - 1"
    using findMax_loop_script_unreachable[of s tg 0 hi 30 em 0] that assms hi0 best by simp
  show ?thesis
    apply (rule exI[of _ best])
    unfolding hi ret ks_takeHomePay_Fin minus_Fin less_eq_number.simps less_number.simps
    using best round_tenth[of best] reach unreach by auto
qed


lemma takeHome_real_1000:
  assumes "0 \<le> p" "p \<le> 100"
  shows "takeHome_real 1000 p 0 0 = 0.8135 * (1000 - 10 * p)"
proof -
  have "totalTax_real (1000 - 10 * p) = 0.1865 * (1000 - 10 * p)"
    using assms by (intro totalTax_real_low) simp_all
  then show ?thesis using assms by (simp add: takeHome_real_def Let_def)
qed

lemma takeHome_script_real_1000:
  assumes "0 \<le> p" "p \<le> 100"
  shows "takeHome_script_real 1000 p = 0.8135 * (1000 - 10 * p)"
proof -
  have "totalTax_real (1000 - 10 * p) = 0.1865 * (1000 - 10 * p)"
    using assms by (intro totalTax_real_low) simp_all
  then show ?thesis using assms by (simp add: takeHome_script_real_def Let_def)
qed

lemma at_zero_1000:
  "k_takeHomePay (calculate401KScenario (Fin 1000) (Fin 0) em (Fin 7) 30 t a (Fin 0) (Fin 0))
     = Fin 813.5"
  "ks_takeHomePay (calculate401KScenario_script (Fin 1000) (Fin 0) em (Fin 7) 30 t) = Fin 813.5"
  by (simp_all add: k_takeHomePay_Fin ks_takeHomePay_Fin takeHome_real_1000
      takeHome_script_real_1000)


text \<open>
  While the threshold percent \<open>c\<close> of the test lies between \<open>low\<close> and \<open>high\<close>, the
  search keeps \<open>bestPercent = low\<close> and halves the interval around \<open>c\<close>.
\<close>

lemma findMax_loop_threshold:
  assumes thr: "\<And>p. 0 \<le> p \<Longrightarrow> p \<le> 100 \<Longrightarrow> (tg - 1 \<le> takeHome_real s p 0 ri) = (p \<le> c)"
  shows "0 \<le> lo \<Longrightarrow> lo \<le> c \<Longrightarrow> c < hi \<Longrightarrow> hi \<le> 100 \<Longrightarrow>
         \<exists>b'. findMax_loop n (Fin s) (Fin tg) em (Fin ri) (Fin lo) (Fin hi) (Fin lo) = Fin b'
              \<and> b' \<le> c \<and> c - (hi - lo) / 2 ^ n < b'"
proof (induction n arbitrary: lo hi)
  case 0
  then show ?case by simp
next
  case (Suc n)
  define mid where "mid = (lo + hi) / 2"
  have m: "0 \<le> mid" "mid \<le> 100" "lo \<le> mid" "mid < hi"
    unfolding mid_def using Suc.prems by simp_all
  have step: "findMax_loop (Suc n) (Fin s) (Fin tg) em (Fin ri) (Fin lo) (Fin hi) (Fin lo)
      = (if mid \<le> c
         then findMax_loop n (Fin s) (Fin tg) em (Fin ri) (Fin mid) (Fin hi) (Fin mid)
         else findMax_loop n (Fin s) (Fin tg) em (Fin ri) (Fin lo) (Fin mid) (Fin lo))"
    using thr[OF m(1,2)] unfolding mid_def by (simp add: Let_def k_takeHomePay_Fin)
  show ?case
  proof (cases "mid \<le> c")
    case True
    have "(hi - mid) / 2 ^ n = (hi - lo) / 2 ^ Suc n" unfolding mid_def by (simp add: field_simps)
    with Suc.IH[OF m(1) True Suc.prems(3,4)] True show ?thesis unfolding step by simp
  next
    case False
    then have c: "c < mid" by simp
    have "(mid - lo) / 2 ^ n = (hi - lo) / 2 ^ Suc n" unfolding mid_def by (simp add: field_simps)
    with Suc.IH[OF Suc.prems(1,2) c m(2)] False show ?thesis unfolding step by simp
  qed
qed


end
